theory Spec2Isabelle
  imports
    Complex_Main
    "HOL-Library.Char_ord"
    "HOL-Library.List_Lexorder"
    "HOL-Library.Product_Lexorder"
begin

section \<open>Order delay dashboard: data model\<close>

text \<open>
  The dashboard script \<^verbatim>\<open>order_dashboard.py\<close> loads one table, resolves its headers
  against an alias table, renames and coerces columns, filters rows and renders a fixed
  sequence of aggregation views.

  Modelling conventions.
  \<^item> A Python \<^verbatim>\<open>str\<close> is a \<open>string\<close>; a \<open>char\<close> stands for a code point below 256.
    On that range \<^verbatim>\<open>str.isspace\<close>, \<^verbatim>\<open>str.lower\<close> and the regular expression class
    \<^verbatim>\<open>[^a-z0-9]\<close> are modelled exactly.
  \<^item> A cell of a data frame is missing (\<open>NaN\<close>), a number or a text. Finite numbers are
    exact rationals: rounding of binary floating point is not modelled. A boolean is the
    number 1 or 0, as Python's \<^verbatim>\<open>True == 1\<close>.
  \<^item> A data frame is its list of column names and its list of rows, each row holding one
    cell per column, in column order.
  \<^item> \<^verbatim>\<open>st.error(...)\<close> followed by \<^verbatim>\<open>st.stop()\<close>, and an exception raised by the
    data frame library, end the run: they are the \<open>Inl\<close> results of type \<open>halt\<close>.
  \<^item> The numeric parser of \<^verbatim>\<open>pd.to_numeric\<close> and the number formatting of
    \<^verbatim>\<open>astype(str)\<close> belong to the library: they are the parameters \<open>parse\<close> and
    \<open>fmt\<close>.
\<close>

datatype cell = NaN | Num rat | Str string

record frame =
  columns :: "string list"
  rows :: "cell list list"

datatype halt =
    Critical_columns_missing "string list" "string list"
  | Missing_required_column string
  | KeyError string
  | TypeError
  | AttributeError
  | ValueError

subsection \<open>Strings\<close>

definition py_isspace :: "char \<Rightarrow> bool" where
  "py_isspace c = ((of_char c :: nat) \<in> {9, 10, 11, 12, 13, 28, 29, 30, 31, 32, 133, 160})"

definition strip :: "string \<Rightarrow> string" where
  "strip s = rev (dropWhile py_isspace (rev (dropWhile py_isspace s)))"

definition py_lower :: "char \<Rightarrow> char" where
  "py_lower c =
     (let n = (of_char c :: nat)
      in if (65 \<le> n \<and> n \<le> 90) \<or> (192 \<le> n \<and> n \<le> 222 \<and> n \<noteq> 215)
         then char_of (n + 32) else c)"

definition lower :: "string \<Rightarrow> string" where
  "lower s = map py_lower s"

text \<open>Membership in the character class \<^verbatim>\<open>[a-z0-9]\<close>.\<close>

definition az09 :: "char \<Rightarrow> bool" where
  "az09 c =
     (let n = (of_char c :: nat)
      in (97 \<le> n \<and> n \<le> 122) \<or> (48 \<le> n \<and> n \<le> 57))"

text \<open>
  \<^verbatim>\<open>re.sub(r'[^a-z0-9]+', '_', s)\<close>: scanning from the left, a character of the class
  \<^verbatim>\<open>[^a-z0-9]\<close> starts a greedy match that takes every following character of the class
  and is replaced by one underscore; any other character is copied.
\<close>

function re_sub :: "string \<Rightarrow> string" where
  "re_sub [] = []"
| "re_sub (c # cs) =
     (if az09 c then c # re_sub cs
      else CHR ''_'' # re_sub (dropWhile (\<lambda>d. \<not> az09 d) cs))"
  by pat_completeness auto
termination
  by (relation "measure length") (auto simp: length_dropWhile_le less_Suc_eq_le)

text \<open>The expression \<^verbatim>\<open>re.sub(r'[^a-z0-9]+', '_', c.strip().lower())\<close> of lines 21, 25, 31.\<close>

definition norm_key :: "string \<Rightarrow> string" where
  "norm_key c = re_sub (lower (strip c))"

text \<open>
  The wording of the specification, for comparison: cut the string into its maximal runs
  of characters inside, respectively outside, \<^verbatim>\<open>[a-z0-9]\<close>, and replace each run of
  the second kind by a single underscore.
\<close>

function spec_runs :: "string \<Rightarrow> string list" where
  "spec_runs [] = []"
| "spec_runs (c # cs) =
     (if az09 c then (c # takeWhile az09 cs) # spec_runs (dropWhile az09 cs)
      else (c # takeWhile (\<lambda>d. \<not> az09 d) cs) # spec_runs (dropWhile (\<lambda>d. \<not> az09 d) cs))"
  by pat_completeness auto
termination
  by (relation "measure length") (auto simp: length_dropWhile_le less_Suc_eq_le)

definition spec_normalize :: "string \<Rightarrow> string" where
  "spec_normalize s =
     concat (map (\<lambda>r. if list_all az09 r then r else ''_'') (spec_runs (lower (strip s))))"

subsection \<open>Column normalizer\<close>

text \<open>
  \<^verbatim>\<open>normalize_cols(df)\<close>, lines 17 to 26. The dictionary \<^verbatim>\<open>mapping\<close> is filled in column
  order, a later header overwriting an earlier one under the same key.
\<close>

definition normalize_cols :: "frame \<Rightarrow> frame \<times> (string \<rightharpoonup> string)" where
  "normalize_cols df =
     (let mapping = fold (\<lambda>c m. m(norm_key c \<mapsto> c)) (columns df) Map.empty;
          df_norm = df\<lparr>columns := map norm_key (columns df)\<rparr>
      in (df_norm, mapping))"

text \<open>\<^verbatim>\<open>find_col(mapping, candidates)\<close>, lines 28 to 34.\<close>

fun find_col :: "(string \<rightharpoonup> string) \<Rightarrow> string list \<Rightarrow> string option" where
  "find_col mapping [] = None"
| "find_col mapping (cand # cands) =
     (let cand_norm = norm_key cand
      in if cand_norm \<in> dom mapping then mapping cand_norm
         else find_col mapping cands)"

text \<open>The alias table \<^verbatim>\<open>candidates\<close>, lines 66 to 77, in its insertion order.\<close>

definition candidates :: "(string \<times> string list) list" where
  "candidates =
     [(''order_id'', [''order_id'', ''order id'', ''orderid'']),
      (''order_region'', [''order_region'', ''order region'', ''region'']),
      (''order_country'', [''order_country'', ''order country'', ''country'']),
      (''shipping_mode'', [''shipping_mode'', ''shipping mode'', ''shipping_mode'', ''shippingmode'']),
      (''category_name'', [''category_name'', ''category name'', ''category'']),
      (''product_name'', [''product_name'', ''product name'', ''product'']),
      (''sales'', [''sales'', ''sales_per_customer'', ''sales_per_order'', ''sales_total'']),
      (''profit_per_order'',
         [''profit_per_order'', ''profit_per_order'', ''order_profit_per_order'', ''profit'']),
      (''quantity'', [''order_item_quantity'', ''quantity'', ''order_item_qty'', ''qty'']),
      (''label'', [''label'', ''order_status'', ''delay_flag'', ''delay_status''])]"

text \<open>
  The loop of lines 79 to 82. The dictionary \<^verbatim>\<open>found\<close> has the keys of \<^verbatim>\<open>candidates\<close>,
  which are distinct, in the same order.
\<close>

definition found :: "frame \<Rightarrow> (string \<times> string option) list" where
  "found df =
     (let col_map = snd (normalize_cols df)
      in map (\<lambda>(std, cand_list). (std, find_col col_map cand_list)) candidates)"

subsection \<open>Columns of a frame\<close>

text \<open>
  \<^verbatim>\<open>row[c]\<close>: the cell of a row under the column named \<open>c\<close> (the first one of that
  name; a name that is absent, or a row that is too short, gives \<open>NaN\<close>).
\<close>

fun cell_at :: "string list \<Rightarrow> cell list \<Rightarrow> string \<Rightarrow> cell" where
  "cell_at (n # ns) (v # vs) c = (if n = c then v else cell_at ns vs c)"
| "cell_at _ _ _ = NaN"

text \<open>\<^verbatim>\<open>df[c]\<close> as a series, for a name that occurs once.\<close>

definition series :: "frame \<Rightarrow> string \<Rightarrow> cell list" where
  "series df c = map (\<lambda>r. cell_at (columns df) r c) (rows df)"

text \<open>
  \<^verbatim>\<open>df[c] = values\<close>: an existing column is overwritten in place, a new one is appended
  on the right.
\<close>

fun set_cell :: "string list \<Rightarrow> cell list \<Rightarrow> string \<Rightarrow> cell \<Rightarrow> cell list" where
  "set_cell (n # ns) (v # vs) c x = (if n = c then x # vs else v # set_cell ns vs c x)"
| "set_cell _ vs c x = vs @ [x]"

definition set_column :: "frame \<Rightarrow> string \<Rightarrow> cell list \<Rightarrow> frame" where
  "set_column df c vals =
     \<lparr>columns = (if c \<in> set (columns df) then columns df else columns df @ [c]),
      rows = map (\<lambda>(r, x). set_cell (columns df) r c x) (zip (rows df) vals)\<rparr>"

text \<open>The frames of the library are rectangular: every row has one cell per column.\<close>

definition rectangular :: "frame \<Rightarrow> bool" where
  "rectangular df = (\<forall>r \<in> set (rows df). length r = length (columns df))"

text \<open>Boolean mask selection \<^verbatim>\<open>df[mask]\<close>, the mask computed row by row.\<close>

definition select_rows :: "(cell list \<Rightarrow> bool) \<Rightarrow> frame \<Rightarrow> frame" where
  "select_rows keep df = df\<lparr>rows := filter keep (rows df)\<rparr>"

subsection \<open>Mandatory fields and renaming\<close>

text \<open>Line 84.\<close>

definition missing_critical :: "(string \<times> string option) list \<Rightarrow> string list" where
  "missing_critical fnd =
     map fst (filter (\<lambda>(k, v). v = None \<and> k \<in> set [''label'', ''order_region'', ''shipping_mode''])
       fnd)"

text \<open>Line 92: the dictionary from resolved headers to standard names.\<close>

definition rename_map :: "(string \<times> string option) list \<Rightarrow> (string \<rightharpoonup> string)" where
  "rename_map fnd =
     fold (\<lambda>(k, v) m. case v of None \<Rightarrow> m | Some actual \<Rightarrow> m(actual \<mapsto> k)) fnd Map.empty"

text \<open>Line 93: \<^verbatim>\<open>work.rename(columns=rename_map)\<close>.\<close>

definition rename :: "(string \<rightharpoonup> string) \<Rightarrow> frame \<Rightarrow> frame" where
  "rename m df = df\<lparr>columns := map (\<lambda>c. case m c of None \<Rightarrow> c | Some k \<Rightarrow> k) (columns df)\<rparr>"

subsection \<open>Type coercion\<close>

text \<open>\<^verbatim>\<open>pd.to_numeric(..., errors="coerce")\<close> on one cell.\<close>

fun to_numeric :: "(string \<Rightarrow> rat option) \<Rightarrow> cell \<Rightarrow> cell" where
  "to_numeric parse NaN = NaN"
| "to_numeric parse (Num q) = Num q"
| "to_numeric parse (Str s) = (case parse s of None \<Rightarrow> NaN | Some q \<Rightarrow> Num q)"

text \<open>\<^verbatim>\<open>.fillna(0)\<close> on one cell.\<close>

fun fillna0 :: "cell \<Rightarrow> cell" where
  "fillna0 NaN = Num 0"
| "fillna0 c = c"

text \<open>
  \<^verbatim>\<open>work[c] = g(pd.to_numeric(work[c], ...))\<close>. For an absent name \<^verbatim>\<open>work[c]\<close> raises
  \<^verbatim>\<open>KeyError\<close>; for a name borne by several columns it is a frame, on which
  \<^verbatim>\<open>pd.to_numeric\<close> raises \<^verbatim>\<open>TypeError\<close>.
\<close>

definition coerce_column :: "string \<Rightarrow> (cell \<Rightarrow> cell) \<Rightarrow> frame \<Rightarrow> halt + frame" where
  "coerce_column c g w =
     (if c \<notin> set (columns w) then Inl (KeyError c)
      else if count_list (columns w) c \<noteq> 1 then Inl TypeError
      else Inr (set_column w c (map g (series w c))))"

text \<open>The loop of lines 97 to 99 over the measure columns.\<close>

fun coerce_measures :: "(string \<Rightarrow> rat option) \<Rightarrow> string list \<Rightarrow> frame \<Rightarrow> halt + frame" where
  "coerce_measures parse [] w = Inr w"
| "coerce_measures parse (col # cols) w =
     (if col \<in> set (columns w)
      then (case coerce_column col (\<lambda>x. fillna0 (to_numeric parse x)) w of
              Inl e \<Rightarrow> Inl e
            | Inr w' \<Rightarrow> coerce_measures parse cols w')
      else coerce_measures parse cols w)"

text \<open>Lines 96 to 99.\<close>

definition coerce :: "(string \<Rightarrow> rat option) \<Rightarrow> frame \<Rightarrow> halt + frame" where
  "coerce parse w =
     (case coerce_column ''label'' (to_numeric parse) w of
        Inl e \<Rightarrow> Inl e
      | Inr w' \<Rightarrow> coerce_measures parse [''sales'', ''profit_per_order'', ''quantity''] w')"

text \<open>Lines 63 to 99: from the loaded frame to the working frame, or the abort of line 87.\<close>

definition prepare :: "(string \<Rightarrow> rat option) \<Rightarrow> frame \<Rightarrow> halt + frame" where
  "prepare parse df =
     (let fnd = found df
      in if missing_critical fnd \<noteq> []
         then Inl (Critical_columns_missing (missing_critical fnd) (columns df))
         else coerce parse (rename (rename_map fnd) df))"

subsection \<open>Top-level counts\<close>

text \<open>Lines 108 to 110: \<^verbatim>\<open>int((work["label"] == v).sum())\<close>, or 0 without a label column.\<close>

definition label_count :: "frame \<Rightarrow> rat \<Rightarrow> nat" where
  "label_count work v =
     (if ''label'' \<in> set (columns work)
      then length (filter (\<lambda>x. x = Num v) (series work ''label'')) else 0)"

definition delayed_count :: "frame \<Rightarrow> nat" where
  "delayed_count work = label_count work (- 1)"

definition ontime_count :: "frame \<Rightarrow> nat" where
  "ontime_count work = label_count work 0"

definition early_count :: "frame \<Rightarrow> nat" where
  "early_count work = label_count work 1"

subsection \<open>Filters\<close>

text \<open>
  The order used wherever the library sorts cells: numbers by value, then texts by code
  points, then missing cells.
\<close>

fun cell_key :: "cell \<Rightarrow> nat \<times> rat \<times> string" where
  "cell_key (Num q) = (0, q, [])"
| "cell_key (Str s) = (1, 0, s)"
| "cell_key NaN = (2, 0, [])"

fun is_num :: "cell \<Rightarrow> bool" where
  "is_num (Num q) = True"
| "is_num _ = False"

fun is_str :: "cell \<Rightarrow> bool" where
  "is_str (Str s) = True"
| "is_str _ = False"

text \<open>
  Python's \<^verbatim>\<open>sorted\<close> on a list of numbers and texts: comparing a number with a text
  raises \<^verbatim>\<open>TypeError\<close>.
\<close>

definition py_sorted :: "cell list \<Rightarrow> halt + cell list" where
  "py_sorted xs =
     (if list_all is_num xs \<or> list_all is_str xs then Inr (sort_key cell_key xs)
      else Inl TypeError)"

text \<open>
  Lines 124 and 125: \<^verbatim>\<open>sorted(work[c].dropna().unique()) if c in work.columns else []\<close>.
  When several columns bear the name, \<^verbatim>\<open>work[c].dropna()\<close> is a frame, which has no
  \<^verbatim>\<open>unique\<close>.
\<close>

definition filter_options :: "frame \<Rightarrow> string \<Rightarrow> halt + cell list" where
  "filter_options work c =
     (if c \<notin> set (columns work) then Inr []
      else if count_list (columns work) c \<noteq> 1 then Inl AttributeError
      else py_sorted (remdups (filter (\<lambda>x. x \<noteq> NaN) (series work c))))"

text \<open>Lines 129 to 133, for the two selections returned by the sidebar.\<close>

definition apply_filters :: "frame \<Rightarrow> cell list \<Rightarrow> cell list \<Rightarrow> frame" where
  "apply_filters work sel_regions sel_shipping =
     (let filtered = work;
          filtered =
            (if ''order_region'' \<in> set (columns filtered) \<and> sel_regions \<noteq> []
             then select_rows
                    (\<lambda>r. cell_at (columns filtered) r ''order_region'' \<in> set sel_regions) filtered
             else filtered);
          filtered =
            (if ''shipping_mode'' \<in> set (columns filtered) \<and> sel_shipping \<noteq> []
             then select_rows
                    (\<lambda>r. cell_at (columns filtered) r ''shipping_mode'' \<in> set sel_shipping) filtered
             else filtered)
      in filtered)"

subsection \<open>Grouping and the arithmetic of float columns\<close>

text \<open>
  A float of the library: a finite number, an infinity or its not-a-number. Dividing two
  columns never raises: \<open>0 / 0\<close> is not-a-number and \<open>x / 0\<close> an infinity.
\<close>

datatype fl = Finite rat | PosInf | NegInf | NotANumber

definition pd_div :: "rat \<Rightarrow> rat \<Rightarrow> fl" where
  "pd_div a b =
     (if b = 0 then (if a = 0 then NotANumber else if 0 < a then PosInf else NegInf)
      else Finite (a / b))"

fun times100 :: "fl \<Rightarrow> fl" where
  "times100 (Finite q) = Finite (q * 100)"
| "times100 x = x"

text \<open>
  The group keys of \<^verbatim>\<open>groupby(key, dropna=...)\<close> with the default \<^verbatim>\<open>sort=True\<close>: the
  distinct keys in sorted order, a missing key last, or left out under \<^verbatim>\<open>dropna=True\<close>.
\<close>

definition group_keys :: "bool \<Rightarrow> cell list \<Rightarrow> cell list" where
  "group_keys dropna ks =
     sort_key cell_key (remdups (if dropna then filter (\<lambda>k. k \<noteq> NaN) ks else ks))"

definition group_keys2 :: "bool \<Rightarrow> (cell \<times> cell) list \<Rightarrow> (cell \<times> cell) list" where
  "group_keys2 dropna ks =
     sort_key (\<lambda>(a, b). (cell_key a, cell_key b))
       (remdups (if dropna then filter (\<lambda>(a, b). a \<noteq> NaN \<and> b \<noteq> NaN) ks else ks))"

text \<open>
  \<^verbatim>\<open>groupby(key, dropna=False)[col].count()\<close> on the pairs (key, value) of the rows: per
  group, the number of values that are not missing.
\<close>

definition groupby_count :: "(cell \<times> cell) list \<Rightarrow> (cell \<times> nat) list" where
  "groupby_count kvs =
     map (\<lambda>k. (k, length (filter (\<lambda>(k', v). k' = k \<and> v \<noteq> NaN) kvs)))
       (group_keys False (map fst kvs))"

text \<open>
  \<^verbatim>\<open>sort_values(col, ascending=False)\<close>: the library reverses the rows, sorts them in
  ascending order and reverses the result. The sort is taken to be stable; the library
  leaves the order of rows with equal values open.
\<close>

definition sort_desc :: "('a \<Rightarrow> nat) \<Rightarrow> 'a list \<Rightarrow> 'a list" where
  "sort_desc f xs = rev (sort_key f (rev xs))"

subsection \<open>Delay summaries\<close>

record summary_row =
  grp :: cell
  total_count :: nat
  delay_count :: nat
  delay_pct :: fl

text \<open>
  The shape shared by lines 251 to 255 (key \<^verbatim>\<open>shipping_mode\<close>) and lines 269 to 273
  (key \<^verbatim>\<open>order_region\<close>): the rows whose label equals \<open>delayed_label\<close> are counted per
  key, the counts of labels per key are merged with them from the left, \<^verbatim>\<open>fillna(0)\<close>
  is applied to the whole merged table (also to a missing key), the percentage is
  computed and the table is sorted by \<^verbatim>\<open>delay_count\<close>, descending.
\<close>

definition delay_summary :: "frame \<Rightarrow> string \<Rightarrow> rat \<Rightarrow> summary_row list" where
  "delay_summary filtered keycol delayed_label =
     (let kvs = zip (series filtered keycol) (series filtered ''label'');
          delay_by = groupby_count (filter (\<lambda>(k, v). v = Num delayed_label) kvs);
          total_by = groupby_count kvs;
          merged = map (\<lambda>(k, t). (k, t, map_of delay_by k)) total_by;
          filled = map (\<lambda>(k, t, d). (fillna0 k, t, case d of None \<Rightarrow> 0 | Some n \<Rightarrow> n)) merged;
          summary =
            map (\<lambda>(k, t, d).
                  \<lparr>grp = k, total_count = t, delay_count = d,
                   delay_pct = times100 (pd_div (of_nat d) (of_nat t))\<rparr>) filled
      in sort_desc delay_count summary)"

text \<open>
  Lines 250 to 255. The rows counted as delayed are those of line 251,
  \<^verbatim>\<open>filtered[filtered["label"] == 1]\<close>. The result is \<open>None\<close> when the view is skipped
  (line 265).
\<close>

definition delay_summary_ship :: "frame \<Rightarrow> summary_row list option" where
  "delay_summary_ship filtered =
     (if ''shipping_mode'' \<in> set (columns filtered) \<and> ''label'' \<in> set (columns filtered)
      then Some (delay_summary filtered ''shipping_mode'' 1) else None)"

text \<open>Lines 268 to 273, with \<^verbatim>\<open>filtered[filtered["label"] == -1]\<close> of line 270.\<close>

definition delay_summary_region :: "frame \<Rightarrow> summary_row list option" where
  "delay_summary_region filtered =
     (if ''order_region'' \<in> set (columns filtered) \<and> ''label'' \<in> set (columns filtered)
      then Some (delay_summary filtered ''order_region'' (- 1)) else None)"

subsection \<open>Standard Class view\<close>

text \<open>\<^verbatim>\<open>series == v\<close> as a column of booleans.\<close>

definition eq_flag :: "cell \<Rightarrow> cell \<Rightarrow> cell" where
  "eq_flag v x = (if x = v then Num 1 else Num 0)"

text \<open>\<^verbatim>\<open>df[c]\<close> on a frame without a column \<open>c\<close> raises \<^verbatim>\<open>KeyError\<close>.\<close>

definition require :: "frame \<Rightarrow> string \<Rightarrow> halt option" where
  "require df c = (if c \<in> set (columns df) then None else Some (KeyError c))"

text \<open>
  Lines 288 to 299. The frame \<^verbatim>\<open>std_df\<close> is a copy of the selected rows, and the column
  \<^verbatim>\<open>is_delayed\<close> is assigned on the copy. The result is the frame \<^verbatim>\<open>filtered\<close> as the
  stage leaves it, \<^verbatim>\<open>std_df\<close>, and the table \<^verbatim>\<open>delay_region_std\<close> (the mean of the
  flag per region, missing regions dropped).
\<close>

definition std_stage :: "frame \<Rightarrow> halt + (frame \<times> frame \<times> (cell \<times> rat) list)" where
  "std_stage filtered =
     (case require filtered ''shipping_mode'' of
        Some e \<Rightarrow> Inl e
      | None \<Rightarrow>
          (let std_df =
                 select_rows
                   (\<lambda>r. cell_at (columns filtered) r ''shipping_mode'' = Str ''Standard Class'')
                   filtered
           in case require std_df ''label'' of
                Some e \<Rightarrow> Inl e
              | None \<Rightarrow>
                  (let std_df =
                         set_column std_df ''is_delayed''
                           (map (eq_flag (Num (- 1))) (series std_df ''label''))
                   in case require std_df ''order_region'' of
                        Some e \<Rightarrow> Inl e
                      | None \<Rightarrow>
                          (let kvs = zip (series std_df ''order_region'')
                                         (series std_df ''is_delayed'');
                               delay_region_std =
                                 map (\<lambda>k. (k,
                                       of_nat (length (filter (\<lambda>(k', v). k' = k \<and> v = Num 1) kvs)) /
                                       of_nat (length (filter (\<lambda>(k', v). k' = k) kvs))))
                                   (group_keys True (map fst kvs))
                           in Inr (filtered, std_df, delay_region_std)))))"

subsection \<open>Routes view\<close>

text \<open>Lines 325 and 326.\<close>

definition req_cols :: "string list" where
  "req_cols = [''Order city'', ''Order Country'', ''Customer city'', ''Customer Country'', ''label'']"

text \<open>\<^verbatim>\<open>astype(str)\<close> on one cell.\<close>

fun astype_str :: "(rat \<Rightarrow> string) \<Rightarrow> cell \<Rightarrow> string" where
  "astype_str fmt NaN = ''nan''"
| "astype_str fmt (Num q) = fmt q"
| "astype_str fmt (Str s) = s"

text \<open>\<^verbatim>\<open>df[a].astype(str) + ", " + df[b].astype(str)\<close>, lines 334 to 340.\<close>

definition joined :: "(rat \<Rightarrow> string) \<Rightarrow> frame \<Rightarrow> string \<Rightarrow> string \<Rightarrow> cell list" where
  "joined fmt df a b =
     map (\<lambda>(x, y). Str (astype_str fmt x @ '', '' @ astype_str fmt y))
       (zip (series df a) (series df b))"

record route_row =
  origin :: cell
  destination :: cell
  total_orders :: nat
  delayed_orders :: rat
  route_pct :: fl

text \<open>The number held by a cell of a numeric column, for \<^verbatim>\<open>sum\<close>, which skips \<open>NaN\<close>.\<close>

fun num_of :: "cell \<Rightarrow> rat" where
  "num_of (Num q) = q"
| "num_of _ = 0"

text \<open>Lines 346 to 357: \<^verbatim>\<open>route_grp\<close> with its column \<^verbatim>\<open>delay_pct\<close>.\<close>

definition route_grp :: "frame \<Rightarrow> route_row list" where
  "route_grp filtered =
     (let keys = zip (series filtered ''origin'') (series filtered ''destination'');
          recs = zip keys (zip (series filtered ''label'') (series filtered ''is_delayed''))
      in map (\<lambda>(a, b).
               (let grp_recs = filter (\<lambda>(k, lab, flag). k = (a, b)) recs;
                    total = length (filter (\<lambda>(k, lab, flag). lab \<noteq> NaN) grp_recs);
                    delayed = sum_list (map (\<lambda>(k, lab, flag). num_of flag) grp_recs)
                in \<lparr>origin = a, destination = b, total_orders = total, delayed_orders = delayed,
                    route_pct = times100 (pd_div delayed (of_nat total))\<rparr>))
           (group_keys2 True keys))"

text \<open>
  Lines 328 to 357. The loop of line 328 stops the run at the first name of \<^verbatim>\<open>req_cols\<close>
  that is not a column of \<^verbatim>\<open>filtered\<close>. Otherwise the three assignments of lines 334 to
  343 are made on \<^verbatim>\<open>filtered\<close> itself; the result is \<^verbatim>\<open>filtered\<close> as the stage leaves
  it, and \<^verbatim>\<open>route_grp\<close>.
\<close>

definition routes_stage :: "(rat \<Rightarrow> string) \<Rightarrow> frame \<Rightarrow> halt + (frame \<times> route_row list)" where
  "routes_stage fmt filtered =
     (case List.find (\<lambda>c. c \<notin> set (columns filtered)) req_cols of
        Some c \<Rightarrow> Inl (Missing_required_column c)
      | None \<Rightarrow>
          (let filtered =
                 set_column filtered ''origin'' (joined fmt filtered ''Order city'' ''Order Country'');
               filtered =
                 set_column filtered ''destination''
                   (joined fmt filtered ''Customer city'' ''Customer Country'');
               filtered =
                 set_column filtered ''is_delayed''
                   (map (eq_flag (Num (- 1))) (series filtered ''label''))
           in Inr (filtered, route_grp filtered)))"

subsection \<open>Most profitable product per region\<close>

text \<open>
  \<^verbatim>\<open>idxmax\<close> within one group: the first row that attains the maximum; a later row
  replaces the current one only when its value is strictly greater.
\<close>

fun first_max :: "('a \<Rightarrow> rat) \<Rightarrow> 'a \<Rightarrow> 'a list \<Rightarrow> 'a" where
  "first_max f best [] = best"
| "first_max f best (x # xs) = first_max f (if f best < f x then x else best) xs"

text \<open>Line 199: the sums per (region, product), missing keys kept, in sorted key order.\<close>

definition prof_prod :: "frame \<Rightarrow> (cell \<times> cell \<times> rat) list" where
  "prof_prod filtered =
     (let keys = zip (series filtered ''order_region'') (series filtered ''product_name'');
          recs = zip keys (series filtered ''profit_per_order'')
      in map (\<lambda>(r, p). (r, p, sum_list (map (\<lambda>(k, v). num_of v) (filter (\<lambda>(k, v). k = (r, p)) recs))))
           (group_keys2 False keys))"

text \<open>
  Lines 198 to 201. \<open>Inr None\<close> is the skipped view of line 205. Grouping by a name that
  several columns bear raises \<^verbatim>\<open>ValueError\<close>. Line 200 groups with the default
  \<^verbatim>\<open>dropna=True\<close>: the rows of \<^verbatim>\<open>prof_prod\<close> with a missing region take no part.
\<close>

definition best_prod :: "frame \<Rightarrow> halt + (cell \<times> cell \<times> rat) list option" where
  "best_prod filtered =
     (if \<not> list_all (\<lambda>c. c \<in> set (columns filtered))
            [''order_region'', ''product_name'', ''profit_per_order'']
      then Inr None
      else if \<not> list_all (\<lambda>c. count_list (columns filtered) c = 1)
            [''order_region'', ''product_name'', ''profit_per_order'']
      then Inl ValueError
      else
        (let pp = prof_prod filtered;
             idx =
               concat (map (\<lambda>r. case filter (\<lambda>(r', p, s). r' = r) pp of
                                   [] \<Rightarrow> []
                                 | x # xs \<Rightarrow> [first_max (\<lambda>(r', p, s). s) x xs])
                        (group_keys True (map fst pp)))
         in Inr (Some idx)))"

section \<open>Properties\<close>

subsection \<open>Column resolution\<close>

lemma re_sub_takeWhile: "re_sub cs = takeWhile az09 cs @ re_sub (dropWhile az09 cs)"
  by (induction cs) auto

lemma re_sub_spec_runs:
  "re_sub s = concat (map (\<lambda>r. if list_all az09 r then r else ''_'') (spec_runs s))"
proof (induction s rule: spec_runs.induct)
  case 1
  show ?case by simp
next
  case (2 c cs)
  show ?case
  proof (cases "az09 c")
    case True
    have "list_all az09 (takeWhile az09 cs)"
      by (simp add: list_all_iff) (meson set_takeWhileD)
    with True 2(1) re_sub_takeWhile [of cs] show ?thesis by simp
  next
    case False
    with 2(2) show ?thesis by simp
  qed
qed

lemma fold_mapping_lookup:
  "fold (\<lambda>c m. m(norm_key c \<mapsto> c)) hs m0 k =
     (if filter (\<lambda>h. norm_key h = k) hs = [] then m0 k
      else Some (last (filter (\<lambda>h. norm_key h = k) hs)))"
  by (induction hs rule: rev_induct) simp_all

lemma fold_mapping_dom:
  "dom (fold (\<lambda>c m. m(norm_key c \<mapsto> c)) hs Map.empty) = norm_key ` set hs"
  by (auto simp: dom_def fold_mapping_lookup filter_empty_conv)

lemma find_col_find:
  "find_col m cands =
     (case List.find (\<lambda>c. norm_key c \<in> dom m) cands of None \<Rightarrow> None | Some c \<Rightarrow> m (norm_key c))"
  by (induction cands) (auto simp: Let_def)


lemma mapping_of_columns:
  "snd (normalize_cols df) k =
     (if k \<in> norm_key ` set (columns df)
      then Some (last (filter (\<lambda>h. norm_key h = k) (columns df))) else None)"
  by (auto simp: normalize_cols_def fold_mapping_lookup filter_empty_conv)

lemma dom_mapping_of_columns: "dom (snd (normalize_cols df)) = norm_key ` set (columns df)"
  by (simp add: normalize_cols_def fold_mapping_dom)

lemma find_Some_holds: "List.find P xs = Some x \<Longrightarrow> P x \<and> x \<in> set xs"
  by (induction xs) (auto split: if_splits)

lemma find_col_first_match:
  "find_col (snd (normalize_cols df)) cands =
     (case List.find (\<lambda>c. norm_key c \<in> norm_key ` set (columns df)) cands of
        None \<Rightarrow> None
      | Some c \<Rightarrow> Some (last (filter (\<lambda>h. norm_key h = norm_key c) (columns df))))"
proof (cases "List.find (\<lambda>c. norm_key c \<in> norm_key ` set (columns df)) cands")
  case None
  then show ?thesis
    by (simp add: find_col_find dom_mapping_of_columns)
next
  case (Some c)
  then have "norm_key c \<in> norm_key ` set (columns df)"
    by (auto dest: find_Some_holds)
  with Some show ?thesis
    by (simp add: find_col_find dom_mapping_of_columns mapping_of_columns)
qed

text \<open>
  Claim C1. Normalising a header or an alias is trimming, lowercasing and replacing every
  maximal run of characters outside \<^verbatim>\<open>[a-z0-9]\<close> by one underscore
  (\<open>spec_normalize\<close>). \<open>find_col\<close> on the lookup built from the headers returns, for
  the first candidate whose normal form is the normal form of some header, the last
  header with that normal form (the later header wins); it returns \<open>None\<close> exactly when
  no candidate matches. The whole resolution \<open>found\<close> is the same for two frames with
  the same headers, whatever their rows.
\<close>

theorem column_resolution:
  "norm_key s = spec_normalize s \<and>
   find_col (snd (normalize_cols df)) cands =
     (case List.find (\<lambda>c. norm_key c \<in> norm_key ` set (columns df)) cands of
        None \<Rightarrow> None
      | Some c \<Rightarrow> Some (last (filter (\<lambda>h. norm_key h = norm_key c) (columns df)))) \<and>
   (find_col (snd (normalize_cols df)) cands = None \<longleftrightarrow>
      (\<forall>c \<in> set cands. norm_key c \<notin> norm_key ` set (columns df))) \<and>
   (columns df = columns df' \<longrightarrow> found df = found df')"
proof (intro conjI)
  show "norm_key s = spec_normalize s"
    by (simp add: norm_key_def spec_normalize_def re_sub_spec_runs)
  show "find_col (snd (normalize_cols df)) cands =
     (case List.find (\<lambda>c. norm_key c \<in> norm_key ` set (columns df)) cands of
        None \<Rightarrow> None
      | Some c \<Rightarrow> Some (last (filter (\<lambda>h. norm_key h = norm_key c) (columns df))))"
    by (rule find_col_first_match)
  show "find_col (snd (normalize_cols df)) cands = None \<longleftrightarrow>
      (\<forall>c \<in> set cands. norm_key c \<notin> norm_key ` set (columns df))"
  proof (cases "List.find (\<lambda>c. norm_key c \<in> norm_key ` set (columns df)) cands")
    case None
    then have "\<forall>c \<in> set cands. norm_key c \<notin> norm_key ` set (columns df)"
      by (simp add: find_None_iff)
    with None show ?thesis
      unfolding find_col_first_match by simp
  next
    case (Some c)
    from find_Some_holds [OF Some]
    have "c \<in> set cands" and "norm_key c \<in> norm_key ` set (columns df)"
      by simp_all
    with Some show ?thesis
      unfolding find_col_first_match by auto
  qed
  show "columns df = columns df' \<longrightarrow> found df = found df'"
    by (simp add: found_def normalize_cols_def)
qed

theorem column_resolution_witness:
  "spec_normalize ''  Order  Region!! '' = ''order_region_'' \<and>
   List.find (\<lambda>c. norm_key c \<in> norm_key ` set [''Order Region'', ''ORDER-REGION '', ''Label''])
     [''order_region'', ''order region'', ''region''] = Some ''order_region'' \<and>
   find_col (snd (normalize_cols
       \<lparr>columns = [''Order Region'', ''ORDER-REGION '', ''Label''], rows = []\<rparr>))
     [''order_region'', ''order region'', ''region''] = Some ''ORDER-REGION '' \<and>
   norm_key ''sales'' \<notin> norm_key ` set [''Order Region'', ''ORDER-REGION '', ''Label''] \<and>
   norm_key ''sales_total'' \<notin> norm_key ` set [''Order Region'', ''ORDER-REGION '', ''Label''] \<and>
   find_col (snd (normalize_cols
       \<lparr>columns = [''Order Region'', ''ORDER-REGION '', ''Label''], rows = []\<rparr>))
     [''sales'', ''sales_total''] = None \<and>
   found \<lparr>columns = [''Order Region'', ''ORDER-REGION '', ''Label''], rows = []\<rparr> =
     found \<lparr>columns = [''Order Region'', ''ORDER-REGION '', ''Label''],
            rows = [[Str ''West'', NaN, Num 1]]\<rparr>"
proof -
  let ?hs = "[''Order Region'', ''ORDER-REGION '', ''Label'']"
  let ?df = "\<lparr>columns = ?hs, rows = []\<rparr>"
  let ?df' = "\<lparr>columns = ?hs, rows = [[Str ''West'', NaN, Num 1]]\<rparr>"
  have n: "norm_key ''  Order  Region!! '' = ''order_region_''"
    by code_simp
  have f: "List.find (\<lambda>c. norm_key c \<in> norm_key ` set ?hs)
      [''order_region'', ''order region'', ''region''] = Some ''order_region''"
    by code_simp
  have l: "last (filter (\<lambda>h. norm_key h = norm_key ''order_region'') ?hs) = ''ORDER-REGION ''"
    by code_simp
  have a: "\<forall>c \<in> set [''sales'', ''sales_total'']. norm_key c \<notin> norm_key ` set ?hs"
    by code_simp
  have c: "columns ?df = columns ?df'"
    by simp
  from column_resolution [of "''  Order  Region!! ''" ?df
      "[''order_region'', ''order region'', ''region'']" ?df']
    column_resolution [of "''x''" ?df "[''sales'', ''sales_total'']" ?df']
    n f l a c
  show ?thesis
    by simp
qed

subsection \<open>Mandatory fields\<close>

lemma coerce_column_not_critical:
  "coerce_column c g w \<noteq> Inl (Critical_columns_missing mc hs)"
  by (simp add: coerce_column_def)

lemma coerce_measures_not_critical:
  "coerce_measures parse cols w \<noteq> Inl (Critical_columns_missing mc hs)"
proof (induction cols arbitrary: w)
  case Nil
  show ?case by simp
next
  case (Cons col cols)
  show ?case
    using Cons.IH coerce_column_not_critical [of col _ w mc hs]
    by (auto split: sum.splits)
qed

lemma coerce_not_critical: "coerce parse w \<noteq> Inl (Critical_columns_missing mc hs)"
proof (cases "coerce_column ''label'' (to_numeric parse) w")
  case (Inl e)
  with coerce_column_not_critical [of "''label''" "to_numeric parse" w mc hs]
  have "e \<noteq> Critical_columns_missing mc hs"
    by simp
  with Inl show ?thesis
    by (simp add: coerce_def)
next
  case (Inr w')
  then show ?thesis
    by (simp add: coerce_def coerce_measures_not_critical del: coerce_measures.simps)
qed

lemma found_shape:
  "\<exists>v1 v2 v3 v4 v5 v6 v7 v8 v9 v10.
     found df =
       [(''order_id'', v1), (''order_region'', v2), (''order_country'', v3),
        (''shipping_mode'', v4), (''category_name'', v5), (''product_name'', v6),
        (''sales'', v7), (''profit_per_order'', v8), (''quantity'', v9), (''label'', v10)]"
  by (simp add: found_def candidates_def Let_def del: find_col.simps)

lemma missing_critical_list:
  "missing_critical (found df) =
     filter (\<lambda>k. map_of (found df) k = Some None) [''order_region'', ''shipping_mode'', ''label'']"
proof -
  from found_shape [of df] obtain v1 v2 v3 v4 v5 v6 v7 v8 v9 v10 where
    f: "found df =
       [(''order_id'', v1), (''order_region'', v2), (''order_country'', v3),
        (''shipping_mode'', v4), (''category_name'', v5), (''product_name'', v6),
        (''sales'', v7), (''profit_per_order'', v8), (''quantity'', v9), (''label'', v10)]"
    by blast
  show ?thesis
    unfolding f missing_critical_def by simp
qed

text \<open>
  Claim C2. When \<^verbatim>\<open>found\<close> holds \<open>None\<close> for one of \<open>label\<close>, \<open>order_region\<close>,
  \<open>shipping_mode\<close>, the run stops with the error of line 86, which carries the list of
  the unresolved mandatory fields (in the order of the alias table) and all headers of
  the loaded frame; nothing is renamed or coerced, and no working frame exists for a later
  stage. When all three are resolved, the run goes on to renaming and coercion and never
  ends with that error.
\<close>

theorem mandatory_field_abort:
  "((\<exists>k \<in> set [''label'', ''order_region'', ''shipping_mode'']. map_of (found df) k = Some None) \<longrightarrow>
      prepare parse df =
        Inl (Critical_columns_missing
               (filter (\<lambda>k. map_of (found df) k = Some None)
                  [''order_region'', ''shipping_mode'', ''label''])
               (columns df))) \<and>
   ((\<forall>k \<in> set [''label'', ''order_region'', ''shipping_mode'']. map_of (found df) k \<noteq> Some None) \<longrightarrow>
      prepare parse df = coerce parse (rename (rename_map (found df)) df) \<and>
      (\<forall>mc hs. prepare parse df \<noteq> Inl (Critical_columns_missing mc hs)))"
proof (intro conjI impI)
  assume "\<exists>k \<in> set [''label'', ''order_region'', ''shipping_mode'']. map_of (found df) k = Some None"
  then have "missing_critical (found df) \<noteq> []"
    unfolding missing_critical_list by (auto simp: filter_empty_conv)
  then show "prepare parse df =
        Inl (Critical_columns_missing
               (filter (\<lambda>k. map_of (found df) k = Some None)
                  [''order_region'', ''shipping_mode'', ''label''])
               (columns df))"
    by (simp add: prepare_def Let_def missing_critical_list)
next
  assume a: "\<forall>k \<in> set [''label'', ''order_region'', ''shipping_mode'']. map_of (found df) k \<noteq> Some None"
  then have "missing_critical (found df) = []"
    unfolding missing_critical_list by (auto simp: filter_empty_conv)
  then show p: "prepare parse df = coerce parse (rename (rename_map (found df)) df)"
    by (simp add: prepare_def Let_def)
  show "\<forall>mc hs. prepare parse df \<noteq> Inl (Critical_columns_missing mc hs)"
    unfolding p by (simp add: coerce_not_critical)
qed


theorem mandatory_field_abort_witness:
  "prepare (\<lambda>s. None)
     \<lparr>columns = [''order region'', ''shipping-mode'', ''sales''],
      rows = [[Str ''West'', Str ''First Class'', Str ''3'']]\<rparr> =
     Inl (Critical_columns_missing [''label''] [''order region'', ''shipping-mode'', ''sales'']) \<and>
   prepare (\<lambda>s. None)
     \<lparr>columns = [''order region'', ''shipping-mode'', '' label''],
      rows = [[Str ''West'', Str ''First Class'', Str ''3'']]\<rparr> =
     Inr \<lparr>columns = [''order_region'', ''shipping_mode'', ''label''],
          rows = [[Str ''West'', Str ''First Class'', NaN]]\<rparr>"
proof -
  let ?a = "\<lparr>columns = [''order region'', ''shipping-mode'', ''sales''],
      rows = [[Str ''West'', Str ''First Class'', Str ''3'']]\<rparr>"
  let ?b = "\<lparr>columns = [''order region'', ''shipping-mode'', '' label''],
      rows = [[Str ''West'', Str ''First Class'', Str ''3'']]\<rparr>"
  have fa: "found ?a =
    [(''order_id'', None), (''order_region'', Some ''order region''), (''order_country'', None),
     (''shipping_mode'', Some ''shipping-mode''), (''category_name'', None),
     (''product_name'', None), (''sales'', Some ''sales''), (''profit_per_order'', None),
     (''quantity'', None), (''label'', None)]"
    by (simp add: found_def candidates_def normalize_cols_def norm_key_def strip_def lower_def
        py_isspace_def py_lower_def az09_def)
  have fb: "found ?b =
    [(''order_id'', None), (''order_region'', Some ''order region''), (''order_country'', None),
     (''shipping_mode'', Some ''shipping-mode''), (''category_name'', None),
     (''product_name'', None), (''sales'', None), (''profit_per_order'', None),
     (''quantity'', None), (''label'', Some '' label'')]"
    by (simp add: found_def candidates_def normalize_cols_def norm_key_def strip_def lower_def
        py_isspace_def py_lower_def az09_def)
  have a1: "\<exists>k \<in> set [''label'', ''order_region'', ''shipping_mode'']. map_of (found ?a) k = Some None"
    by (simp add: fa)
  have a2: "filter (\<lambda>k. map_of (found ?a) k = Some None)
      [''order_region'', ''shipping_mode'', ''label''] = [''label'']"
    by (simp add: fa)
  have b1: "\<forall>k \<in> set [''label'', ''order_region'', ''shipping_mode'']. map_of (found ?b) k \<noteq> Some None"
    by (simp add: fb)
  have b2: "coerce (\<lambda>s. None) (rename (rename_map (found ?b)) ?b) =
     Inr \<lparr>columns = [''order_region'', ''shipping_mode'', ''label''],
          rows = [[Str ''West'', Str ''First Class'', NaN]]\<rparr>"
    by (simp add: fb rename_map_def rename_def coerce_def coerce_column_def series_def
        set_column_def)
  have "prepare (\<lambda>s. None) ?a =
     Inl (Critical_columns_missing
            (filter (\<lambda>k. map_of (found ?a) k = Some None)
               [''order_region'', ''shipping_mode'', ''label''])
            (columns ?a))"
    using mandatory_field_abort [of ?a "\<lambda>s. None", THEN conjunct1, THEN mp, OF a1] .
  then have "prepare (\<lambda>s. None) ?a =
     Inl (Critical_columns_missing [''label''] [''order region'', ''shipping-mode'', ''sales''])"
    unfolding a2 by simp
  moreover have "prepare (\<lambda>s. None) ?b = coerce (\<lambda>s. None) (rename (rename_map (found ?b)) ?b)"
    using mandatory_field_abort [of ?b "\<lambda>s. None", THEN conjunct2, THEN mp, OF b1, THEN conjunct1] .
  then have "prepare (\<lambda>s. None) ?b =
     Inr \<lparr>columns = [''order_region'', ''shipping_mode'', ''label''],
          rows = [[Str ''West'', Str ''First Class'', NaN]]\<rparr>"
    unfolding b2 .
  ultimately show ?thesis by (rule conjI)
qed

subsection \<open>Filter engine\<close>

text \<open>
  Claim C4. The filter stage keeps the columns and keeps exactly the rows that pass both
  predicates, in their order; the region predicate asks that the row's \<open>order_region\<close> be
  among the selected regions and is applied only when the column exists and the selection
  is not empty, and likewise for \<open>shipping_mode\<close>. With an empty region selection the
  result is the working set restricted by the shipping-mode predicate alone.
\<close>

theorem filter_engine_semantics:
  "columns (apply_filters work sel_regions sel_shipping) = columns work \<and>
   rows (apply_filters work sel_regions sel_shipping) =
     filter (\<lambda>r.
         (''order_region'' \<in> set (columns work) \<and> sel_regions \<noteq> [] \<longrightarrow>
            cell_at (columns work) r ''order_region'' \<in> set sel_regions) \<and>
         (''shipping_mode'' \<in> set (columns work) \<and> sel_shipping \<noteq> [] \<longrightarrow>
            cell_at (columns work) r ''shipping_mode'' \<in> set sel_shipping))
       (rows work) \<and>
   rows (apply_filters work [] sel_shipping) =
     filter (\<lambda>r.
         ''shipping_mode'' \<in> set (columns work) \<and> sel_shipping \<noteq> [] \<longrightarrow>
            cell_at (columns work) r ''shipping_mode'' \<in> set sel_shipping)
       (rows work) \<and>
   apply_filters work [] [] = work"
  by (simp add: apply_filters_def select_rows_def Let_def)

theorem filter_engine_semantics_witness:
  "apply_filters
     \<lparr>columns = [''order_region'', ''shipping_mode''],
      rows = [[Str ''West'', Str ''First Class''], [Str ''East'', Str ''Same Day''],
              [NaN, Str ''First Class''], [Str ''West'', NaN]]\<rparr>
     [Str ''West''] [Str ''First Class'', Str ''Same Day''] =
     \<lparr>columns = [''order_region'', ''shipping_mode''],
      rows = [[Str ''West'', Str ''First Class'']]\<rparr> \<and>
   rows (apply_filters
     \<lparr>columns = [''order_region'', ''shipping_mode''],
      rows = [[Str ''West'', Str ''First Class''], [Str ''East'', Str ''Same Day''],
              [NaN, Str ''First Class''], [Str ''West'', NaN]]\<rparr>
     [] [Str ''First Class'']) =
     [[Str ''West'', Str ''First Class''], [NaN, Str ''First Class'']]"
proof -
  let ?w = "\<lparr>columns = [''order_region'', ''shipping_mode''],
      rows = [[Str ''West'', Str ''First Class''], [Str ''East'', Str ''Same Day''],
              [NaN, Str ''First Class''], [Str ''West'', NaN]]\<rparr>"
  from filter_engine_semantics [of ?w "[Str ''West'']" "[Str ''First Class'', Str ''Same Day'']"]
  have "apply_filters ?w [Str ''West''] [Str ''First Class'', Str ''Same Day''] =
     \<lparr>columns = [''order_region'', ''shipping_mode''], rows = [[Str ''West'', Str ''First Class'']]\<rparr>"
    by (intro frame.equality) simp_all
  moreover from filter_engine_semantics [of ?w "[]" "[Str ''First Class'']"]
  have "rows (apply_filters ?w [] [Str ''First Class'']) =
     [[Str ''West'', Str ''First Class''], [NaN, Str ''First Class'']]"
    by simp
  ultimately show ?thesis by (rule conjI)
qed

subsection \<open>Filter options and the default selection\<close>

lemma py_sorted_set: "py_sorted xs = Inr ys \<Longrightarrow> set ys = set xs"
  by (auto simp: py_sorted_def split: if_splits)

lemma py_sorted_sorted: "py_sorted xs = Inr ys \<Longrightarrow> sorted (map cell_key ys)"
  by (auto simp: py_sorted_def split: if_splits)

lemma py_sorted_distinct: "py_sorted xs = Inr ys \<Longrightarrow> distinct xs \<Longrightarrow> distinct ys"
  by (auto simp: py_sorted_def split: if_splits)

lemma filter_options_set:
  assumes "filter_options work c = Inr opts"
  shows "set opts = {x \<in> set (series work c). x \<noteq> NaN \<and> c \<in> set (columns work)}"
proof (cases "c \<in> set (columns work)")
  case False
  with assms show ?thesis
    by (simp add: filter_options_def)
next
  case True
  with assms have "py_sorted (remdups (filter (\<lambda>x. x \<noteq> NaN) (series work c))) = Inr opts"
    by (simp add: filter_options_def split: if_splits)
  from py_sorted_set [OF this] True show ?thesis
    by auto
qed

lemma filter_options_sorted_distinct:
  assumes "filter_options work c = Inr opts"
  shows "sorted (map cell_key opts) \<and> distinct opts"
proof (cases "c \<in> set (columns work)")
  case False
  with assms show ?thesis
    by (simp add: filter_options_def)
next
  case True
  with assms have p: "py_sorted (remdups (filter (\<lambda>x. x \<noteq> NaN) (series work c))) = Inr opts"
    by (simp add: filter_options_def split: if_splits)
  from py_sorted_sorted [OF p] py_sorted_distinct [OF p] show ?thesis
    by simp
qed

lemma filter_options_no_nan: "filter_options work c = Inr opts \<Longrightarrow> NaN \<notin> set opts"
  by (simp add: filter_options_set)

lemma filter_options_column:
  "filter_options work c = Inr opts \<Longrightarrow> opts \<noteq> [] \<Longrightarrow> c \<in> set (columns work)"
  by (auto simp: filter_options_def split: if_splits)

lemma kept_rows_region:
  assumes "r \<in> set (rows (apply_filters work sel_regions sel_shipping))"
    and "''order_region'' \<in> set (columns work)" and "sel_regions \<noteq> []"
  shows "cell_at (columns work) r ''order_region'' \<in> set sel_regions"
  using assms by (simp add: apply_filters_def select_rows_def Let_def split: if_splits)

lemma kept_rows_shipping:
  assumes "r \<in> set (rows (apply_filters work sel_regions sel_shipping))"
    and "''shipping_mode'' \<in> set (columns work)" and "sel_shipping \<noteq> []"
  shows "cell_at (columns work) r ''shipping_mode'' \<in> set sel_shipping"
  using assms by (simp add: apply_filters_def select_rows_def Let_def split: if_splits)

text \<open>
  Claim C10, as the code has it. The options of a filter are the distinct values of the
  column that are not missing, sorted. With the default selection (all options of both
  filters selected), a row whose \<open>order_region\<close> is missing is left out whenever the
  region options are not empty, and likewise for \<open>shipping_mode\<close>; for any selection
  that holds no missing value, a row with a missing \<open>order_region\<close> is kept only if the
  region selection is empty. When every \<open>order_region\<close> of the working set is missing,
  the options and hence the default selection are empty, the predicate is not applied and
  those rows are kept.
\<close>

theorem default_selection_drops_missing:
  "(filter_options work c = Inr opts \<longrightarrow>
      sorted (map cell_key opts) \<and> distinct opts \<and>
      set opts = {x \<in> set (series work c). x \<noteq> NaN \<and> c \<in> set (columns work)}) \<and>
   (filter_options work ''order_region'' = Inr regions \<and>
    filter_options work ''shipping_mode'' = Inr ships \<longrightarrow>
      (\<forall>r \<in> set (rows (apply_filters work regions ships)).
         (regions \<noteq> [] \<longrightarrow> cell_at (columns work) r ''order_region'' \<noteq> NaN) \<and>
         (ships \<noteq> [] \<longrightarrow> cell_at (columns work) r ''shipping_mode'' \<noteq> NaN))) \<and>
   (''order_region'' \<in> set (columns work) \<and> NaN \<notin> set sel_regions \<and>
    r \<in> set (rows (apply_filters work sel_regions sel_shipping)) \<and>
    cell_at (columns work) r ''order_region'' = NaN \<longrightarrow> sel_regions = []) \<and>
   (''shipping_mode'' \<in> set (columns work) \<and> NaN \<notin> set sel_shipping \<and>
    r \<in> set (rows (apply_filters work sel_regions sel_shipping)) \<and>
    cell_at (columns work) r ''shipping_mode'' = NaN \<longrightarrow> sel_shipping = []) \<and>
   (''order_region'' \<in> set (columns work) \<and> (\<forall>x \<in> set (series work ''order_region''). x = NaN) \<and>
    filter_options work ''order_region'' = Inr regions \<longrightarrow>
      regions = [] \<and> rows (apply_filters work regions []) = rows work)"
proof -
  have 1: "filter_options work c = Inr opts \<longrightarrow>
      sorted (map cell_key opts) \<and> distinct opts \<and>
      set opts = {x \<in> set (series work c). x \<noteq> NaN \<and> c \<in> set (columns work)}"
    using filter_options_sorted_distinct [of work c opts] filter_options_set [of work c opts]
    by blast
  have 2: "filter_options work ''order_region'' = Inr regions \<and>
    filter_options work ''shipping_mode'' = Inr ships \<longrightarrow>
      (\<forall>r \<in> set (rows (apply_filters work regions ships)).
         (regions \<noteq> [] \<longrightarrow> cell_at (columns work) r ''order_region'' \<noteq> NaN) \<and>
         (ships \<noteq> [] \<longrightarrow> cell_at (columns work) r ''shipping_mode'' \<noteq> NaN))"
  proof (intro impI ballI conjI)
    fix r
    assume a: "filter_options work ''order_region'' = Inr regions \<and>
      filter_options work ''shipping_mode'' = Inr ships"
      and r: "r \<in> set (rows (apply_filters work regions ships))"
    {
      assume n: "regions \<noteq> []"
      from a n have "''order_region'' \<in> set (columns work)"
        by (simp add: filter_options_column)
      from kept_rows_region [OF r this n] filter_options_no_nan [of work "''order_region''" regions] a
      show "cell_at (columns work) r ''order_region'' \<noteq> NaN"
        by auto
    }
    {
      assume n: "ships \<noteq> []"
      from a n have "''shipping_mode'' \<in> set (columns work)"
        by (simp add: filter_options_column)
      from kept_rows_shipping [OF r this n] filter_options_no_nan [of work "''shipping_mode''" ships] a
      show "cell_at (columns work) r ''shipping_mode'' \<noteq> NaN"
        by auto
    }
  qed
  have 3: "''order_region'' \<in> set (columns work) \<and> NaN \<notin> set sel_regions \<and>
    r \<in> set (rows (apply_filters work sel_regions sel_shipping)) \<and>
    cell_at (columns work) r ''order_region'' = NaN \<longrightarrow> sel_regions = []"
    using kept_rows_region [of r work sel_regions sel_shipping]
    by (cases "sel_regions = []") auto
  have 4: "''shipping_mode'' \<in> set (columns work) \<and> NaN \<notin> set sel_shipping \<and>
    r \<in> set (rows (apply_filters work sel_regions sel_shipping)) \<and>
    cell_at (columns work) r ''shipping_mode'' = NaN \<longrightarrow> sel_shipping = []"
    using kept_rows_shipping [of r work sel_regions sel_shipping]
    by (cases "sel_shipping = []") auto
  have 5: "''order_region'' \<in> set (columns work) \<and>
    (\<forall>x \<in> set (series work ''order_region''). x = NaN) \<and>
    filter_options work ''order_region'' = Inr regions \<longrightarrow>
      regions = [] \<and> rows (apply_filters work regions []) = rows work"
  proof (intro impI)
    assume a: "''order_region'' \<in> set (columns work) \<and>
      (\<forall>x \<in> set (series work ''order_region''). x = NaN) \<and>
      filter_options work ''order_region'' = Inr regions"
    then have "set regions = {}"
      using filter_options_set [of work "''order_region''" regions] by auto
    then have "regions = []"
      by simp
    then show "regions = [] \<and> rows (apply_filters work regions []) = rows work"
      by (simp add: apply_filters_def)
  qed
  from 1 2 3 4 5 show ?thesis
    by (intro conjI)
qed

theorem default_selection_drops_missing_witness:
  "filter_options
     \<lparr>columns = [''order_region'', ''shipping_mode''],
      rows = [[Str ''West'', Str ''A''], [NaN, Str ''A''], [Str ''East'', NaN],
              [Str ''West'', Str ''A'']]\<rparr> ''order_region'' = Inr [Str ''East'', Str ''West''] \<and>
   filter_options
     \<lparr>columns = [''order_region'', ''shipping_mode''],
      rows = [[Str ''West'', Str ''A''], [NaN, Str ''A''], [Str ''East'', NaN],
              [Str ''West'', Str ''A'']]\<rparr> ''shipping_mode'' = Inr [Str ''A''] \<and>
   [Str ''West'', Str ''A''] \<in> set (rows (apply_filters
     \<lparr>columns = [''order_region'', ''shipping_mode''],
      rows = [[Str ''West'', Str ''A''], [NaN, Str ''A''], [Str ''East'', NaN],
              [Str ''West'', Str ''A'']]\<rparr> [Str ''East'', Str ''West''] [Str ''A''])) \<and>
   cell_at [''order_region'', ''shipping_mode''] [Str ''West'', Str ''A''] ''order_region'' \<noteq> NaN \<and>
   sorted (map cell_key [Str ''East'', Str ''West'']) \<and>
   filter_options
     \<lparr>columns = [''order_region'', ''shipping_mode''], rows = [[NaN, Str ''A'']]\<rparr>
     ''order_region'' = Inr [] \<and>
   rows (apply_filters
     \<lparr>columns = [''order_region'', ''shipping_mode''], rows = [[NaN, Str ''A'']]\<rparr> [] []) =
     [[NaN, Str ''A'']]"
proof -
  let ?w = "\<lparr>columns = [''order_region'', ''shipping_mode''],
      rows = [[Str ''West'', Str ''A''], [NaN, Str ''A''], [Str ''East'', NaN],
              [Str ''West'', Str ''A'']]\<rparr>"
  let ?v = "\<lparr>columns = [''order_region'', ''shipping_mode''], rows = [[NaN, Str ''A'']]\<rparr>"
  let ?r = "[Str ''West'', Str ''A'']"
  have o1: "filter_options ?w ''order_region'' = Inr [Str ''East'', Str ''West'']"
    by code_simp
  have o2: "filter_options ?w ''shipping_mode'' = Inr [Str ''A'']"
    by code_simp
  have m: "?r \<in> set (rows (apply_filters ?w [Str ''East'', Str ''West''] [Str ''A'']))"
    by code_simp
  have o3: "filter_options ?v ''order_region'' = Inr []"
    by code_simp
  have c: "''order_region'' \<in> set (columns ?v) \<and>
      (\<forall>x \<in> set (series ?v ''order_region''). x = NaN)"
    by (simp add: series_def)
  note t = default_selection_drops_missing
    [of ?w "''order_region''" "[Str ''East'', Str ''West'']" "[Str ''East'', Str ''West'']"
      "[Str ''A'']" "[]" ?r "[]"]
  note u = default_selection_drops_missing
    [of ?v "''order_region''" "[]" "[]" "[]" "[]" ?r "[]"]
  from t o1 have s: "sorted (map cell_key [Str ''East'', Str ''West''])"
    by blast
  from t o1 o2 m have n: "cell_at (columns ?w) ?r ''order_region'' \<noteq> NaN"
    by blast
  from u o3 c have e: "rows (apply_filters ?v [] []) = rows ?v"
    by blast
  from o1 o2 m n s o3 e show ?thesis
    by simp
qed

text \<open>
  The claim as worded, without the proviso on the options, fails on a working set whose
  only row has a missing region: the region options and the default region selection are
  empty, the region predicate is not applied, and the row is kept.
\<close>

theorem default_selection_drops_missing_counterexample:
  "\<not> (\<forall>work regions ships.
        filter_options work ''order_region'' = Inr regions \<and>
        filter_options work ''shipping_mode'' = Inr ships \<longrightarrow>
        (\<forall>r \<in> set (rows (apply_filters work regions ships)).
           cell_at (columns work) r ''order_region'' \<noteq> NaN \<and>
           cell_at (columns work) r ''shipping_mode'' \<noteq> NaN))"
proof
  let ?w = "\<lparr>columns = [''order_region'', ''shipping_mode'', ''label''],
      rows = [[NaN, Str ''Standard Class'', Num 1]]\<rparr>"
  let ?r = "[NaN, Str ''Standard Class'', Num 1]"
  assume a: "\<forall>work regions ships.
        filter_options work ''order_region'' = Inr regions \<and>
        filter_options work ''shipping_mode'' = Inr ships \<longrightarrow>
        (\<forall>r \<in> set (rows (apply_filters work regions ships)).
           cell_at (columns work) r ''order_region'' \<noteq> NaN \<and>
           cell_at (columns work) r ''shipping_mode'' \<noteq> NaN)"
  have o1: "filter_options ?w ''order_region'' = Inr []"
    by code_simp
  have o2: "filter_options ?w ''shipping_mode'' = Inr [Str ''Standard Class'']"
    by code_simp
  have m: "?r \<in> set (rows (apply_filters ?w [] [Str ''Standard Class'']))"
    by code_simp
  from a o1 o2 have "\<forall>r \<in> set (rows (apply_filters ?w [] [Str ''Standard Class''])).
      cell_at (columns ?w) r ''order_region'' \<noteq> NaN \<and>
      cell_at (columns ?w) r ''shipping_mode'' \<noteq> NaN"
    by blast
  with m have "cell_at (columns ?w) ?r ''order_region'' \<noteq> NaN"
    by blast
  then show False
    by simp
qed

subsection \<open>Type coercion and label counts\<close>

lemma cell_at_set_cell:
  "length r = length ns \<Longrightarrow>
   cell_at (if c \<in> set ns then ns else ns @ [c]) (set_cell ns r c x) c' =
     (if c' = c then x else cell_at ns r c')"
  by (induction r ns rule: list_induct2) auto

lemma length_set_cell:
  "length r = length ns \<Longrightarrow>
   length (set_cell ns r c x) = length (if c \<in> set ns then ns else ns @ [c])"
  by (induction r ns rule: list_induct2) auto

lemma columns_set_column:
  "columns (set_column w c vals) = (if c \<in> set (columns w) then columns w else columns w @ [c])"
  by (simp add: set_column_def)

lemma rectangular_set_column:
  "rectangular w \<Longrightarrow> rectangular (set_column w c vals)"
  unfolding rectangular_def set_column_def
  by (auto simp: length_set_cell dest!: set_zip_leftD)

lemma length_series [simp]: "length (series w c) = length (rows w)"
  by (simp add: series_def)

lemma series_set_column:
  assumes "rectangular w" and "length vals = length (rows w)"
  shows "series (set_column w c vals) c' = (if c' = c then vals else series w c')"
proof -
  have "\<And>rs. \<forall>r \<in> set rs. length r = length (columns w) \<Longrightarrow> length vals' = length rs \<Longrightarrow>
      map (\<lambda>r. cell_at (if c \<in> set (columns w) then columns w else columns w @ [c]) r c')
        (map (\<lambda>(r, x). set_cell (columns w) r c x) (zip rs vals')) =
      (if c' = c then vals' else map (\<lambda>r. cell_at (columns w) r c') rs)" for vals'
  proof (induction vals')
    case Nil
    then show ?case by simp
  next
    case (Cons v vs)
    then obtain r rs' where rs: "rs = r # rs'"
      by (cases rs) auto
    with Cons.prems have "length r = length (columns w)"
      by simp
    from cell_at_set_cell [OF this, of c v c'] Cons.IH [of rs'] Cons.prems rs show ?case
      by (auto split: if_splits)
  qed
  from this [of "rows w" vals] assms show ?thesis
    by (simp add: series_def set_column_def rectangular_def)
qed

lemma coerce_column_Inr:
  assumes "coerce_column c g w = Inr w'" and "rectangular w"
  shows "columns w' = columns w" and "rectangular w'"
    and "series w' c' = (if c' = c then map g (series w c) else series w c')"
proof -
  from assms(1) have c: "c \<in> set (columns w)"
    and w': "w' = set_column w c (map g (series w c))"
    by (auto simp: coerce_column_def split: if_splits)
  from c show "columns w' = columns w"
    by (simp add: w' columns_set_column)
  from assms(2) show "rectangular w'"
    by (simp add: w' rectangular_set_column)
  from assms(2) show "series w' c' = (if c' = c then map g (series w c) else series w c')"
    by (simp add: w' series_set_column)
qed

lemma coerce_column_total:
  assumes "count_list (columns w) c = 1"
  shows "\<exists>w'. coerce_column c g w = Inr w'"
proof -
  from assms count_list_0_iff [of "columns w" c] have "c \<in> set (columns w)"
    by (cases "c \<in> set (columns w)") simp_all
  with assms show ?thesis
    by (simp add: coerce_column_def)
qed

lemma coerce_measures_Inr:
  assumes "coerce_measures parse cols w = Inr w'" and "rectangular w" and "distinct cols"
  shows "columns w' = columns w \<and> rectangular w' \<and>
    (\<forall>c. series w' c =
       (if c \<in> set cols \<and> c \<in> set (columns w)
        then map (\<lambda>x. fillna0 (to_numeric parse x)) (series w c) else series w c))"
  using assms
proof (induction cols arbitrary: w)
  case Nil
  then show ?case by simp
next
  case (Cons col cols)
  show ?case
  proof (cases "col \<in> set (columns w)")
    case False
    with Cons.prems have "coerce_measures parse cols w = Inr w'"
      by simp
    from Cons.IH [OF this] Cons.prems False show ?thesis
      by auto
  next
    case True
    with Cons.prems obtain w1 where
      w1: "coerce_column col (\<lambda>x. fillna0 (to_numeric parse x)) w = Inr w1"
      and r: "coerce_measures parse cols w1 = Inr w'"
      by (auto split: sum.splits)
    note a = coerce_column_Inr [OF w1 Cons.prems(2)]
    from Cons.IH [OF r a(2)] Cons.prems(3)
    have b: "columns w' = columns w1" "rectangular w'"
      "\<And>c. series w' c =
        (if c \<in> set cols \<and> c \<in> set (columns w1)
         then map (\<lambda>x. fillna0 (to_numeric parse x)) (series w1 c) else series w1 c)"
      by auto
    from Cons.prems(3) have n: "col \<notin> set cols"
      by simp
    show ?thesis
    proof (intro conjI allI)
      show "columns w' = columns w"
        using a(1) b(1) by simp
      show "rectangular w'"
        by (rule b(2))
      fix c
      show "series w' c =
        (if c \<in> set (col # cols) \<and> c \<in> set (columns w)
         then map (\<lambda>x. fillna0 (to_numeric parse x)) (series w c) else series w c)"
        using b(3) [of c] a(3) [of c] a(1) n True by auto
    qed
  qed
qed

lemma coerce_measures_total:
  assumes "\<forall>c \<in> set cols. count_list (columns w) c \<le> 1" and "rectangular w"
  shows "\<exists>w'. coerce_measures parse cols w = Inr w'"
  using assms
proof (induction cols arbitrary: w)
  case Nil
  then show ?case by simp
next
  case (Cons col cols)
  show ?case
  proof (cases "col \<in> set (columns w)")
    case False
    with Cons show ?thesis
      by simp
  next
    case True
    with Cons.prems(1) have "count_list (columns w) col = 1"
      using count_list_0_iff [of "columns w" col] by (simp add: le_Suc_eq)
    from coerce_column_total [OF this] obtain w1 where
      w1: "coerce_column col (\<lambda>x. fillna0 (to_numeric parse x)) w = Inr w1"
      by blast
    note a = coerce_column_Inr [OF w1 Cons.prems(2)]
    from Cons.IH [of w1] Cons.prems(1) a(1) a(2) obtain w' where
      "coerce_measures parse cols w1 = Inr w'"
      by auto
    with True w1 show ?thesis
      by simp
  qed
qed

lemma coerce_Inr:
  assumes "coerce parse w = Inr w'" and "rectangular w"
  shows "columns w' = columns w"
    and "series w' ''label'' = map (to_numeric parse) (series w ''label'')"
    and "m \<in> set [''sales'', ''profit_per_order'', ''quantity''] \<Longrightarrow> m \<in> set (columns w) \<Longrightarrow>
      series w' m = map (\<lambda>x. fillna0 (to_numeric parse x)) (series w m)"
proof -
  obtain w1 where
    w1: "coerce_column ''label'' (to_numeric parse) w = Inr w1"
    and r: "coerce_measures parse [''sales'', ''profit_per_order'', ''quantity''] w1 = Inr w'"
  proof (cases "coerce_column ''label'' (to_numeric parse) w")
    case (Inl e)
    with assms(1) show ?thesis
      by (simp add: coerce_def)
  next
    case (Inr w1)
    with assms(1) that show ?thesis
      by (simp add: coerce_def del: coerce_measures.simps)
  qed
  note a = coerce_column_Inr [OF w1 assms(2)]
  have d: "distinct [''sales'', ''profit_per_order'', ''quantity'']"
    by simp
  note b = coerce_measures_Inr [OF r a(2) d]
  from a(1) b show "columns w' = columns w"
    by simp
  from b have "series w' ''label'' = series w1 ''label''"
    by simp
  with a(3) [of "''label''"] show "series w' ''label'' = map (to_numeric parse) (series w ''label'')"
    by simp
  assume m: "m \<in> set [''sales'', ''profit_per_order'', ''quantity'']" "m \<in> set (columns w)"
  then have "m \<noteq> ''label''"
    by auto
  with a(3) [of m] have "series w1 m = series w m"
    by simp
  moreover from b m a(1)
  have "series w' m = map (\<lambda>x. fillna0 (to_numeric parse x)) (series w1 m)"
    by simp
  ultimately show "series w' m = map (\<lambda>x. fillna0 (to_numeric parse x)) (series w m)"
    by simp
qed

lemma coerce_total:
  assumes "rectangular w" and "count_list (columns w) ''label'' = 1"
    and "\<forall>m \<in> set [''sales'', ''profit_per_order'', ''quantity'']. count_list (columns w) m \<le> 1"
  shows "\<exists>w'. coerce parse w = Inr w'"
proof -
  from coerce_column_total [OF assms(2)] obtain w1 where
    w1: "coerce_column ''label'' (to_numeric parse) w = Inr w1"
    by blast
  note a = coerce_column_Inr [OF w1 assms(1)]
  from coerce_measures_total [of "[''sales'', ''profit_per_order'', ''quantity'']" w1 parse]
    assms(3) a(1) a(2)
  obtain w' where "coerce_measures parse [''sales'', ''profit_per_order'', ''quantity''] w1 = Inr w'"
    by auto
  with w1 show ?thesis
    by (simp add: coerce_def)
qed

text \<open>
  Claim C5. On a rectangular working frame on which the coercion of lines 96 to 99
  returns, the label column becomes, cell by cell, the parsed number or \<open>NaN\<close> where
  the text does not parse; a count keyed on a label value \<open>v\<close> counts exactly the rows
  whose label is, or parses to, \<open>v\<close>, so missing and unparseable labels enter no such
  count; each measure column that is present becomes the parsed number, or exactly 0 where
  the cell is missing or does not parse. For the labels -1, -1, 0, 1, "bad", missing the
  three counts are 2, 1 and 1. The coercion returns whenever the label column is there
  once and no measure column is there twice.
\<close>

theorem coercion_and_label_counts:
  "(rectangular w \<and> coerce parse w = Inr w' \<longrightarrow>
      series w' ''label'' = map (to_numeric parse) (series w ''label'') \<and>
      label_count w' v =
        length (filter (\<lambda>x. to_numeric parse x = Num v) (series w ''label'')) \<and>
      (\<forall>m \<in> set [''sales'', ''profit_per_order'', ''quantity'']. m \<in> set (columns w) \<longrightarrow>
         series w' m = map (\<lambda>x. fillna0 (to_numeric parse x)) (series w m)) \<and>
      (series w ''label'' = [Num (- 1), Num (- 1), Num 0, Num 1, Str ''bad'', NaN] \<and>
       parse ''bad'' = None \<longrightarrow>
         delayed_count w' = 2 \<and> ontime_count w' = 1 \<and> early_count w' = 1)) \<and>
   (parse s = None \<longrightarrow>
      to_numeric parse (Str s) = NaN \<and> fillna0 (to_numeric parse (Str s)) = Num 0) \<and>
   to_numeric parse NaN = NaN \<and> fillna0 (to_numeric parse NaN) = Num 0 \<and>
   (rectangular w \<and> count_list (columns w) ''label'' = 1 \<and>
    (\<forall>m \<in> set [''sales'', ''profit_per_order'', ''quantity'']. count_list (columns w) m \<le> 1) \<longrightarrow>
      (\<exists>w'. coerce parse w = Inr w'))"
proof -
  have 1: "rectangular w \<and> coerce parse w = Inr w' \<longrightarrow>
      series w' ''label'' = map (to_numeric parse) (series w ''label'') \<and>
      label_count w' v =
        length (filter (\<lambda>x. to_numeric parse x = Num v) (series w ''label'')) \<and>
      (\<forall>m \<in> set [''sales'', ''profit_per_order'', ''quantity'']. m \<in> set (columns w) \<longrightarrow>
         series w' m = map (\<lambda>x. fillna0 (to_numeric parse x)) (series w m)) \<and>
      (series w ''label'' = [Num (- 1), Num (- 1), Num 0, Num 1, Str ''bad'', NaN] \<and>
       parse ''bad'' = None \<longrightarrow>
         delayed_count w' = 2 \<and> ontime_count w' = 1 \<and> early_count w' = 1)"
  proof (intro impI)
    assume a: "rectangular w \<and> coerce parse w = Inr w'"
    then have r: "rectangular w" and c: "coerce parse w = Inr w'"
      by simp_all
    note k = coerce_Inr [OF c r]
    from c have l: "''label'' \<in> set (columns w)"
      by (auto simp: coerce_def coerce_column_def split: if_splits sum.splits)
    have lc: "label_count w' u =
        length (filter (\<lambda>x. to_numeric parse x = Num u) (series w ''label''))" for u
      using l k(1) k(2) by (simp add: label_count_def filter_map comp_def)
    have ex: "delayed_count w' = 2 \<and> ontime_count w' = 1 \<and> early_count w' = 1"
      if "series w ''label'' = [Num (- 1), Num (- 1), Num 0, Num 1, Str ''bad'', NaN]"
        and "parse ''bad'' = None"
      using that by (simp add: delayed_count_def ontime_count_def early_count_def lc)
    from k(2) lc [of v] k(3) ex
    show "series w' ''label'' = map (to_numeric parse) (series w ''label'') \<and>
      label_count w' v =
        length (filter (\<lambda>x. to_numeric parse x = Num v) (series w ''label'')) \<and>
      (\<forall>m \<in> set [''sales'', ''profit_per_order'', ''quantity'']. m \<in> set (columns w) \<longrightarrow>
         series w' m = map (\<lambda>x. fillna0 (to_numeric parse x)) (series w m)) \<and>
      (series w ''label'' = [Num (- 1), Num (- 1), Num 0, Num 1, Str ''bad'', NaN] \<and>
       parse ''bad'' = None \<longrightarrow>
         delayed_count w' = 2 \<and> ontime_count w' = 1 \<and> early_count w' = 1)"
      by blast
  qed
  have 2: "parse s = None \<longrightarrow>
      to_numeric parse (Str s) = NaN \<and> fillna0 (to_numeric parse (Str s)) = Num 0"
    by simp
  have 3: "to_numeric parse NaN = NaN \<and> fillna0 (to_numeric parse NaN) = Num 0"
    by simp
  have 4: "rectangular w \<and> count_list (columns w) ''label'' = 1 \<and>
    (\<forall>m \<in> set [''sales'', ''profit_per_order'', ''quantity'']. count_list (columns w) m \<le> 1) \<longrightarrow>
      (\<exists>w'. coerce parse w = Inr w')"
    using coerce_total [of w parse] by blast
  from 1 2 3 4 show ?thesis
    by blast
qed

theorem coercion_and_label_counts_witness:
  "coerce (\<lambda>s. if s = ''12'' then Some 12 else None)
     \<lparr>columns = [''label'', ''sales''],
      rows = [[Num (- 1), Str ''12''], [Num (- 1), NaN], [Num 0, Str ''n/a''], [Num 1, Num 5],
              [Str ''bad'', Num 1], [NaN, Num 2]]\<rparr> =
     Inr \<lparr>columns = [''label'', ''sales''],
          rows = [[Num (- 1), Num 12], [Num (- 1), Num 0], [Num 0, Num 0], [Num 1, Num 5],
                  [NaN, Num 1], [NaN, Num 2]]\<rparr> \<and>
   delayed_count \<lparr>columns = [''label'', ''sales''],
          rows = [[Num (- 1), Num 12], [Num (- 1), Num 0], [Num 0, Num 0], [Num 1, Num 5],
                  [NaN, Num 1], [NaN, Num 2]]\<rparr> = 2 \<and>
   ontime_count \<lparr>columns = [''label'', ''sales''],
          rows = [[Num (- 1), Num 12], [Num (- 1), Num 0], [Num 0, Num 0], [Num 1, Num 5],
                  [NaN, Num 1], [NaN, Num 2]]\<rparr> = 1 \<and>
   early_count \<lparr>columns = [''label'', ''sales''],
          rows = [[Num (- 1), Num 12], [Num (- 1), Num 0], [Num 0, Num 0], [Num 1, Num 5],
                  [NaN, Num 1], [NaN, Num 2]]\<rparr> = 1"
proof -
  let ?p = "\<lambda>s. if s = ''12'' then Some (12 :: rat) else None"
  let ?w = "\<lparr>columns = [''label'', ''sales''],
      rows = [[Num (- 1), Str ''12''], [Num (- 1), NaN], [Num 0, Str ''n/a''], [Num 1, Num 5],
              [Str ''bad'', Num 1], [NaN, Num 2]]\<rparr>"
  let ?w' = "\<lparr>columns = [''label'', ''sales''],
          rows = [[Num (- 1), Num 12], [Num (- 1), Num 0], [Num 0, Num 0], [Num 1, Num 5],
                  [NaN, Num 1], [NaN, Num 2]]\<rparr>"
  have r: "rectangular ?w"
    by (simp add: rectangular_def)
  have c: "coerce ?p ?w = Inr ?w'"
    by (simp add: coerce_def coerce_column_def set_column_def series_def)
  have l: "series ?w ''label'' = [Num (- 1), Num (- 1), Num 0, Num 1, Str ''bad'', NaN]"
    by (simp add: series_def)
  have b: "?p ''bad'' = None"
    by simp
  from coercion_and_label_counts [of ?w ?p ?w' 0 "''bad''"] r c l b
  have "delayed_count ?w' = 2 \<and> ontime_count ?w' = 1 \<and> early_count ?w' = 1"
    by blast
  with c show ?thesis
    by blast
qed

end
